theory Spec2Isabelle
  imports Complex_Main "HOL-Library.Char_ord" "HOL-Library.List_Lexorder"
    "HOL-Library.Product_Lexorder" "HOL-Library.Sublist" "HOL-Library.Multiset"
begin

section \<open>The employee analytics dashboard (dashboard.py)\<close>

text \<open>
  The dashboard is one script: it reads a table, offers two selectors (Department, Gender),
  filters the table by the selection, and shapes the filtered table for four KPI cards and
  seven charts. The script calls pandas for every table operation; each definition below
  embeds one expression of the script together with the pandas operation it calls, with
  every exception the expression can raise as an error value.
\<close>

subsection \<open>Cells, errors and tables\<close>

text \<open>
  A cell of a frame read by \<^verbatim>\<open>pd.read_csv\<close> is a string, a number (an int64 or a
  double, carried here by its exact rational value) or missing (\<^verbatim>\<open>nan\<close>).
  A column has a dtype: numeric (int64/float64) or object (strings).
\<close>

datatype cell = Str string | Num rat | NaN

datatype dtype = Numeric | Object

datatype error = KeyError | TypeError | ValueError

record table =
  columns :: "(string \<times> dtype) list"
  rows :: "cell list list"

fun conforms :: "dtype \<Rightarrow> cell \<Rightarrow> bool" where
  "conforms Numeric (Str s) = False"
| "conforms Object (Num q) = False"
| "conforms d c = True"

text \<open>A frame is rectangular, its column names are distinct and each cell has the dtype
  of its column or is missing.\<close>

definition wf_table :: "table \<Rightarrow> bool" where
  "wf_table t \<longleftrightarrow>
     distinct (map fst (columns t)) \<and>
     list_all (\<lambda>r. list_all2 conforms (map snd (columns t)) r) (rows t)"

fun index_of :: "'a \<Rightarrow> 'a list \<Rightarrow> nat option" where
  "index_of x [] = None"
| "index_of x (y # ys) =
     (if x = y then Some 0 else map_option Suc (index_of x ys))"

definition col_index :: "string \<Rightarrow> table \<Rightarrow> nat option" where
  "col_index c t = index_of c (map fst (columns t))"

definition cell_at :: "cell list \<Rightarrow> nat \<Rightarrow> cell" where
  "cell_at r i = (if i < length r then r ! i else NaN)"

text \<open>\<^verbatim>\<open>df[c]\<close>: the cells of column \<open>c\<close> in row order; KeyError when the frame has no
  such column.\<close>

definition get_col :: "string \<Rightarrow> table \<Rightarrow> error + cell list" where
  "get_col c t =
     (case col_index c t of
        None \<Rightarrow> Inl KeyError
      | Some i \<Rightarrow> Inr (map (\<lambda>r. cell_at r i) (rows t)))"

subsection \<open>Python comparisons\<close>

text \<open>\<^verbatim>\<open>a == b\<close> on cells, as pandas applies it elementwise: a missing value equals
  nothing, not even itself.\<close>

fun py_eq :: "cell \<Rightarrow> cell \<Rightarrow> bool" where
  "py_eq NaN b = False"
| "py_eq a NaN = False"
| "py_eq a b = (a = b)"

text \<open>\<^verbatim>\<open>a < b\<close>: strings by code point, numbers by value, every comparison with
  \<^verbatim>\<open>nan\<close> false, and TypeError between a string and a float.\<close>

fun py_lt :: "cell \<Rightarrow> cell \<Rightarrow> error + bool" where
  "py_lt (Str s) (Str t) = Inr (s < t)"
| "py_lt (Num a) (Num b) = Inr (a < b)"
| "py_lt (Str s) b = Inl TypeError"
| "py_lt a (Str t) = Inl TypeError"
| "py_lt a b = Inr False"

subsection \<open>Filter engine\<close>

text \<open>\<^verbatim>\<open>Series.unique()\<close>: the distinct values in order of first appearance.\<close>

fun unique :: "'a list \<Rightarrow> 'a list" where
  "unique [] = []"
| "unique (x # xs) = x # unique (filter (\<lambda>y. y \<noteq> x) xs)"

text \<open>
  \<^verbatim>\<open>sorted(xs)\<close>: a stable sort by \<^verbatim>\<open><\<close>, raising TypeError when a string meets
  a float. On a list that \<^verbatim>\<open><\<close> orders (strings alone, or numbers alone without
  \<^verbatim>\<open>nan\<close>) every stable sort returns the same list, so insertion sort stands for
  CPython's. With \<^verbatim>\<open>nan\<close> among numbers \<^verbatim>\<open><\<close> is no order and the list CPython
  returns depends on the steps of its own algorithm, which this definition does not
  follow: it is used below only for columns without missing values.
\<close>

fun py_insort :: "cell \<Rightarrow> cell list \<Rightarrow> error + cell list" where
  "py_insort x [] = Inr [x]"
| "py_insort x (y # ys) =
     (case py_lt y x of
        Inl e \<Rightarrow> Inl e
      | Inr False \<Rightarrow> Inr (x # y # ys)
      | Inr True \<Rightarrow> (case py_insort x ys of Inl e \<Rightarrow> Inl e | Inr zs \<Rightarrow> Inr (y # zs)))"

fun py_sorted :: "cell list \<Rightarrow> error + cell list" where
  "py_sorted [] = Inr []"
| "py_sorted (x # xs) =
     (case py_sorted xs of Inl e \<Rightarrow> Inl e | Inr ys \<Rightarrow> py_insort x ys)"

text \<open>\<^verbatim>\<open>sorted(df[c].unique())\<close>.\<close>

definition distinctValues :: "table \<Rightarrow> string \<Rightarrow> error + cell list" where
  "distinctValues df c =
     (case get_col c df of Inl e \<Rightarrow> Inl e | Inr vs \<Rightarrow> py_sorted (unique vs))"

text \<open>\<^verbatim>\<open>["All"] + sorted(df[c].unique())\<close>: the options of a selector.\<close>

definition selector_options :: "table \<Rightarrow> string \<Rightarrow> error + cell list" where
  "selector_options df c =
     (case distinctValues df c of Inl e \<Rightarrow> Inl e | Inr vs \<Rightarrow> Inr (Str ''All'' # vs))"

text \<open>\<^verbatim>\<open>df[df[c] == v]\<close>: the rows whose cell in column \<open>c\<close> equals \<open>v\<close>, as a new
  frame with the same columns.\<close>

definition select_eq :: "string \<Rightarrow> cell \<Rightarrow> table \<Rightarrow> error + table" where
  "select_eq c v t =
     (case col_index c t of
        None \<Rightarrow> Inl KeyError
      | Some i \<Rightarrow> Inr (t\<lparr>rows := filter (\<lambda>r. py_eq (cell_at r i) v) (rows t)\<rparr>))"

text \<open>
  Lines 39 to 45: \<^verbatim>\<open>df_filtered = df.copy()\<close>, then one selection per selector whose
  value is not \<^verbatim>\<open>"All"\<close>.
\<close>

definition applyFilters :: "table \<Rightarrow> cell \<Rightarrow> cell \<Rightarrow> error + table" where
  "applyFilters df dept_filter gender_filter =
     (let df_filtered = df in
      case (if dept_filter \<noteq> Str ''All''
            then select_eq ''Department'' dept_filter df_filtered
            else Inr df_filtered) of
        Inl e \<Rightarrow> Inl e
      | Inr df_filtered \<Rightarrow>
          (if gender_filter \<noteq> Str ''All''
           then select_eq ''Gender'' gender_filter df_filtered
           else Inr df_filtered))"

text \<open>
  One run of the script holds the frame read from the upload and the view derived from it.
  Streamlit reruns the script on every change of a selector: the view of the run before is
  not read, the new one is computed from the frame.
\<close>

record session =
  s_df :: table
  s_df_filtered :: table

definition on_filter_change :: "session \<Rightarrow> cell \<Rightarrow> cell \<Rightarrow> error + session" where
  "on_filter_change s dept_filter gender_filter =
     (case applyFilters (s_df s) dept_filter gender_filter of
        Inl e \<Rightarrow> Inl e
      | Inr v \<Rightarrow> Inr (s\<lparr>s_df_filtered := v\<rparr>))"

subsection \<open>Floating-point primitives\<close>

text \<open>
  The arithmetic of numpy on doubles is not part of the embedding: the mean of a non-empty
  array, the product of two doubles, the Pearson coefficient of a list of complete
  observations that is constant in neither component and the \<^verbatim>\<open>.2f\<close> rendering of
  a double are parameters, and every theorem below holds for all of them. What is fixed is
  which cells reach a primitive and what is returned when none does. The mean of an object
  array that holds strings is a parameter too: pandas adds the cells up, which
  concatenates strings, and converts the sum back to a number or raises TypeError.
\<close>

record float_ops =
  fmean :: "rat list \<Rightarrow> rat"
  fmean_obj :: "cell list \<Rightarrow> error + cell"
  fmul :: "rat \<Rightarrow> rat \<Rightarrow> rat"
  fpearson :: "(rat \<times> rat) list \<Rightarrow> cell"
  fmt2 :: "rat \<Rightarrow> string"

subsection \<open>Metrics calculator\<close>

definition dropna :: "cell list \<Rightarrow> cell list" where
  "dropna vs = filter (\<lambda>v. v \<noteq> NaN) vs"

fun is_str :: "cell \<Rightarrow> bool" where
  "is_str (Str s) = True"
| "is_str c = False"

fun numbers :: "cell list \<Rightarrow> rat list" where
  "numbers [] = []"
| "numbers (Num q # vs) = q # numbers vs"
| "numbers (v # vs) = numbers vs"

text \<open>\<^verbatim>\<open>Series.mean()\<close>: without strings, missing values are skipped and the mean of
  no value is \<^verbatim>\<open>nan\<close>; with strings, the outcome is that of the object path.\<close>

definition mean :: "float_ops \<Rightarrow> cell list \<Rightarrow> error + cell" where
  "mean ops vs =
     (if list_ex is_str vs then fmean_obj ops vs
      else if numbers vs = [] then Inr NaN
      else Inr (Num (fmean ops (numbers vs))))"

text \<open>\<^verbatim>\<open>f"{x:.2f}"\<close>.\<close>

fun format_2f :: "float_ops \<Rightarrow> cell \<Rightarrow> error + string" where
  "format_2f ops NaN = Inr ''nan''"
| "format_2f ops (Num q) = Inr (fmt2 ops q)"
| "format_2f ops (Str s) = Inl ValueError"

text \<open>\<^verbatim>\<open>Series.nunique()\<close>: the number of distinct values that are not missing.\<close>

definition nunique :: "cell list \<Rightarrow> nat" where
  "nunique vs = length (unique (dropna vs))"

definition bind_err :: "error + 'a \<Rightarrow> ('a \<Rightarrow> error + 'b) \<Rightarrow> error + 'b" where
  "bind_err m f = (case m of Inl e \<Rightarrow> Inl e | Inr x \<Rightarrow> f x)"

record kpi =
  total_employees :: nat
  avg_satisfaction :: string
  avg_performance :: string
  profiles :: nat

text \<open>Lines 52 to 55, in the order the script evaluates them.\<close>

definition kpi_cards :: "float_ops \<Rightarrow> table \<Rightarrow> error + kpi" where
  "kpi_cards ops df_filtered =
     bind_err (get_col ''Satisfaction'' df_filtered) (\<lambda>sat.
     bind_err (mean ops sat) (\<lambda>sat_mean.
     bind_err (format_2f ops sat_mean) (\<lambda>sat_text.
     bind_err (get_col ''PerformanceScore'' df_filtered) (\<lambda>perf.
     bind_err (mean ops perf) (\<lambda>perf_mean.
     bind_err (format_2f ops perf_mean) (\<lambda>perf_text.
     bind_err (get_col ''LPA_Profile'' df_filtered) (\<lambda>prof.
       Inr \<lparr>total_employees = length (rows df_filtered),
            avg_satisfaction = sat_text,
            avg_performance = perf_text,
            profiles = nunique prof\<rparr>)))))))"

subsection \<open>Aggregations, one per chart\<close>

text \<open>
  Each chart is given by the data the script prepares for it. Chart 3, the scatter plot,
  receives the rows of the view as they are and aggregates nothing; it has no definition
  here.
\<close>

text \<open>
  \<^verbatim>\<open>Series.value_counts()\<close>: one count per distinct value that is not missing
  (\<^verbatim>\<open>dropna=True\<close> is the default), largest count first; values with equal counts are
  kept here in order of first appearance.
\<close>

definition value_counts :: "cell list \<Rightarrow> (cell \<times> nat) list" where
  "value_counts vs =
     sort_key (\<lambda>p. - int (snd p)) (map (\<lambda>v. (v, count_list vs v)) (unique (dropna vs)))"

text \<open>Chart 1: \<^verbatim>\<open>df_filtered["LPA_Profile"].value_counts().reset_index()\<close>.\<close>

definition fig1_data :: "table \<Rightarrow> error + (cell \<times> nat) list" where
  "fig1_data df_filtered =
     bind_err (get_col ''LPA_Profile'' df_filtered) (\<lambda>vs. Inr (value_counts vs))"

text \<open>
  A column name handed to plotly express that the frame does not have is a ValueError.
\<close>

definition px_col :: "string \<Rightarrow> table \<Rightarrow> error + cell list" where
  "px_col c t = (case get_col c t of Inl e \<Rightarrow> Inl ValueError | Inr vs \<Rightarrow> Inr vs)"

text \<open>
  Chart 2: \<^verbatim>\<open>px.pie(df_filtered, names="Department")\<close>. The pie gets the label of every
  row and, having no values, shows one slice per distinct label, sized by the number of
  rows carrying it.
\<close>

definition pie_slices :: "cell list \<Rightarrow> (cell \<times> nat) list" where
  "pie_slices labels = map (\<lambda>v. (v, count_list labels v)) (unique labels)"

definition fig2_data :: "table \<Rightarrow> error + (cell \<times> nat) list" where
  "fig2_data df_filtered =
     bind_err (px_col ''Department'' df_filtered) (\<lambda>labels. Inr (pie_slices labels))"

text \<open>
  Plotly express draws one series per value of the \<^verbatim>\<open>color\<close> column. When the column
  holds a single value, missing or not, it skips the grouping and draws one series of all
  rows. Otherwise it groups: one series per value in order of first appearance, and the
  rows whose colour is missing belong to none. A series holds the cells of the plotted
  column of its rows.
\<close>

definition series_by :: "string \<Rightarrow> string \<Rightarrow> table \<Rightarrow> error + (cell \<times> cell list) list" where
  "series_by color y t =
     bind_err (px_col y t) (\<lambda>ys.
     bind_err (px_col color t) (\<lambda>cs.
       Inr (case unique cs of
              [k] \<Rightarrow> [(k, ys)]
            | _ \<Rightarrow> map (\<lambda>k. (k, map snd (filter (\<lambda>p. fst p = k) (zip cs ys))))
                     (unique (dropna cs)))))"

text \<open>
  Chart 4: \<^verbatim>\<open>px.histogram(df_filtered, x="Stress", nbins=20, color="Gender")\<close>. The
  script hands the renderer the series and the bin parameter; the bins themselves are
  computed by the renderer.
\<close>

record histogram =
  nbins :: nat
  series :: "(cell \<times> cell list) list"

definition fig4_data :: "table \<Rightarrow> error + histogram" where
  "fig4_data df_filtered =
     bind_err (series_by ''Gender'' ''Stress'' df_filtered) (\<lambda>ss.
       Inr \<lparr>nbins = 20, series = ss\<rparr>)"

text \<open>Chart 5: \<^verbatim>\<open>px.box(df_filtered, x="Department", y="WorkLifeBalance",
  color="Department")\<close>: one box per department, over its WorkLifeBalance cells.\<close>

definition fig5_data :: "table \<Rightarrow> error + (cell \<times> cell list) list" where
  "fig5_data df_filtered = series_by ''Department'' ''WorkLifeBalance'' df_filtered"

definition num_cols :: "string list" where
  "num_cols =
     [''Age'', ''TenureMonths'', ''PerformanceScore'', ''Satisfaction'', ''Engagement'',
      ''Motivation'', ''Stress'', ''WorkLifeBalance'', ''OvertimeHours'',
      ''TrainingHoursLastYear'', ''AbsenteeismDays'', ''PeerRating'',
      ''ManagerRating'', ''ProjectLoad'', ''LPA_Profile'']"

fun sequence_err :: "(error + 'a) list \<Rightarrow> error + 'a list" where
  "sequence_err [] = Inr []"
| "sequence_err (m # ms) =
     (case m of
        Inl e \<Rightarrow> Inl e
      | Inr x \<Rightarrow> (case sequence_err ms of Inl e \<Rightarrow> Inl e | Inr xs \<Rightarrow> Inr (x # xs)))"

text \<open>\<^verbatim>\<open>df[cols]\<close>: the named columns with their dtypes, KeyError when a name is
  not a column.\<close>

definition col_entry :: "string \<Rightarrow> table \<Rightarrow> error + (string \<times> dtype \<times> cell list)" where
  "col_entry c t =
     (case col_index c t of
        None \<Rightarrow> Inl KeyError
      | Some i \<Rightarrow> Inr (c, snd (columns t ! i), map (\<lambda>r. cell_at r i) (rows t)))"

definition select_cols :: "string list \<Rightarrow> table \<Rightarrow> error + (string \<times> dtype \<times> cell list) list" where
  "select_cols cols t = sequence_err (map (\<lambda>c. col_entry c t) cols)"

fun complete_pairs :: "cell list \<Rightarrow> cell list \<Rightarrow> (rat \<times> rat) list" where
  "complete_pairs (Num a # xs) (Num b # ys) = (a, b) # complete_pairs xs ys"
| "complete_pairs (x # xs) (y # ys) = complete_pairs xs ys"
| "complete_pairs xs ys = []"

fun constant_obs :: "rat list \<Rightarrow> bool" where
  "constant_obs [] = True"
| "constant_obs (a # as) = list_all (\<lambda>b. b = a) as"

text \<open>
  \<^verbatim>\<open>DataFrame.corr()\<close>: Pearson, over the columns of numeric dtype only. An entry is
  computed from the rows where both columns have a value. With fewer than one such row
  (\<^verbatim>\<open>min_periods\<close>) it is \<^verbatim>\<open>nan\<close>. When one of the two columns is constant over
  those rows it is \<^verbatim>\<open>nan\<close> as well: pandas accumulates the sums by Welford's update,
  in which every deviation of a constant column is exactly 0, so the divisor is 0 and the
  quotient is not formed. Every other entry is the value of the floating-point kernel.
  Pandas computes the entries on and below the diagonal and stores each of them at both
  positions.
\<close>

definition corr_entry :: "float_ops \<Rightarrow> cell list \<Rightarrow> cell list \<Rightarrow> cell" where
  "corr_entry ops xs ys =
     (let obs = complete_pairs xs ys in
      if length obs < 1 then NaN
      else if constant_obs (map fst obs) \<or> constant_obs (map snd obs) then NaN
      else fpearson ops obs)"

record matrix =
  corr_labels :: "string list"
  corr_entries :: "cell list list"

definition corr :: "float_ops \<Rightarrow> (string \<times> dtype \<times> cell list) list \<Rightarrow> matrix" where
  "corr ops cs =
     (let numeric = filter (\<lambda>c. fst (snd c) = Numeric) cs;
          mat = map (\<lambda>c. snd (snd c)) numeric;
          K = length mat
      in \<lparr>corr_labels = map fst numeric,
          corr_entries =
            map (\<lambda>xi. map (\<lambda>yi. if yi \<le> xi then corr_entry ops (mat ! xi) (mat ! yi)
                                 else corr_entry ops (mat ! yi) (mat ! xi))
                          [0..<K])
                [0..<K]\<rparr>)"

text \<open>Chart 6: \<^verbatim>\<open>df_filtered[num_cols].corr()\<close>.\<close>

definition fig6_data :: "float_ops \<Rightarrow> table \<Rightarrow> error + matrix" where
  "fig6_data ops df_filtered =
     bind_err (select_cols num_cols df_filtered) (\<lambda>cs. Inr (corr ops cs))"

text \<open>Group keys are ordered: numbers by value, then strings by code point.\<close>

fun cell_key :: "cell \<Rightarrow> nat \<times> rat \<times> string" where
  "cell_key (Num q) = (0, q, [])"
| "cell_key (Str s) = (1, 0, s)"
| "cell_key NaN = (2, 0, [])"

definition group_keys :: "cell list \<Rightarrow> cell list" where
  "group_keys ks = sort_key cell_key (unique (dropna ks))"

definition group_cells :: "cell list \<Rightarrow> cell list \<Rightarrow> cell \<Rightarrow> cell list" where
  "group_cells ks vs k = map snd (filter (\<lambda>p. fst p = k) (zip ks vs))"

text \<open>
  \<^verbatim>\<open>df.groupby(by)[c].mean().reset_index()\<close>: one row per key that is not missing, keys
  ascending, with the mean of the cells of \<open>c\<close> in the rows of that key.
\<close>

definition groupby_mean ::
  "float_ops \<Rightarrow> string \<Rightarrow> string \<Rightarrow> table \<Rightarrow> error + (cell \<times> cell) list" where
  "groupby_mean ops by c t =
     bind_err (get_col by t) (\<lambda>ks.
     bind_err (get_col c t) (\<lambda>vs.
       sequence_err
         (map (\<lambda>k. bind_err (mean ops (group_cells ks vs k)) (\<lambda>m. Inr (k, m)))
              (group_keys ks))))"

text \<open>\<^verbatim>\<open>attr_data["Attrition"] * 100\<close> on one cell: a missing mean stays missing.\<close>

fun times_100 :: "float_ops \<Rightarrow> cell \<Rightarrow> error + cell" where
  "times_100 ops (Num q) = Inr (Num (fmul ops q 100))"
| "times_100 ops NaN = Inr NaN"
| "times_100 ops (Str s) = Inl TypeError"

datatype attrition_chart = Chart "(cell \<times> cell) list" | Warning string

text \<open>Lines 153 to 170: chart 7, or the warning when the frame has no Attrition column.\<close>

definition attr_data :: "float_ops \<Rightarrow> table \<Rightarrow> error + attrition_chart" where
  "attr_data ops df_filtered =
     (if ''Attrition'' \<in> set (map fst (columns df_filtered)) then
        bind_err (groupby_mean ops ''LPA_Profile'' ''Attrition'' df_filtered) (\<lambda>g.
        bind_err (sequence_err (map (\<lambda>p. bind_err (times_100 ops (snd p)) (\<lambda>a. Inr (fst p, a))) g))
          (\<lambda>scaled. Inr (Chart scaled)))
      else Inr (Warning ''Attrition column not found in dataset.''))"



text \<open>The columns the KPI cards and the aggregations read from the view.\<close>

definition required_cols :: "string list" where
  "required_cols =
     [''Satisfaction'', ''PerformanceScore'', ''LPA_Profile'', ''Department'', ''Stress'',
      ''Gender'', ''WorkLifeBalance''] @ num_cols"

subsection \<open>Example frames\<close>

text \<open>
  Exact arithmetic in place of the floating-point primitives. The coefficient is a
  stand-in: 1 when the two components agree in every row and 0 otherwise. The mean of
  strings raises, and the rendering of a number is a fixed text.
\<close>

definition example_ops :: float_ops where
  "example_ops =
     \<lparr>fmean = (\<lambda>xs. sum_list xs / of_nat (length xs)),
      fmean_obj = (\<lambda>vs. Inl TypeError),
      fmul = (\<lambda>a b. a * b),
      fpearson = (\<lambda>obs. if list_all (\<lambda>p. fst p = snd p) obs then Num 1 else Num 0),
      fmt2 = (\<lambda>q. ''0.00'')\<rparr>"

text \<open>Four employees: two in Eng (both F), two in Sales (one F, one M). Both employees
  of profile 0 have left, both of profile 1 have stayed.\<close>

definition example_df :: table where
  "example_df =
     \<lparr>columns =
        [(''EmployeeID'', Numeric), (''Department'', Object), (''Gender'', Object),
         (''Age'', Numeric), (''TenureMonths'', Numeric), (''PerformanceScore'', Numeric),
         (''Satisfaction'', Numeric), (''Engagement'', Numeric), (''Motivation'', Numeric),
         (''Stress'', Numeric), (''WorkLifeBalance'', Numeric), (''OvertimeHours'', Numeric),
         (''TrainingHoursLastYear'', Numeric), (''AbsenteeismDays'', Numeric),
         (''PeerRating'', Numeric), (''ManagerRating'', Numeric), (''ProjectLoad'', Numeric),
         (''LPA_Profile'', Numeric), (''Attrition'', Numeric)],
      rows =
        [[Num 1, Str ''Eng'', Str ''F'', Num 30, Num 12, Num 4, Num 3, Num 5, Num 4,
          Num 2, Num 3, Num 10, Num 20, Num 1, Num 4, Num 4, Num 3, Num 0, Num 1],
         [Num 2, Str ''Eng'', Str ''F'', Num 41, Num 60, Num 3, Num 4, Num 4, Num 3,
          Num 5, Num 2, Num 0, Num 8, Num 0, Num 3, Num 5, Num 2, Num 1, Num 0],
         [Num 3, Str ''Sales'', Str ''F'', Num 25, Num 6, Num 5, Num 5, Num 3, Num 5,
          Num 1, Num 4, Num 4, Num 16, Num 3, Num 5, Num 3, Num 4, Num 1, Num 0],
         [Num 4, Str ''Sales'', Str ''M'', Num 52, Num 120, Num 2, Num 2, Num 2, Num 2,
          Num 4, Num 1, Num 25, Num 0, Num 7, Num 2, Num 2, Num 5, Num 0, Num 1]]\<rparr>"

text \<open>The same frame with the profile of the fourth employee missing.\<close>

definition example_missing_profile_df :: table where
  "example_missing_profile_df =
     example_df\<lparr>rows := (rows example_df)[3 := (rows example_df ! 3)[17 := NaN]]\<rparr>"



text \<open>The same frame without its last column, Attrition.\<close>

definition example_no_attrition_df :: table where
  "example_no_attrition_df =
     \<lparr>columns = butlast (columns example_df), rows = map butlast (rows example_df)\<rparr>"

section \<open>Auxiliary facts\<close>

subsection \<open>Columns and indices\<close>

lemma index_of_Some: "index_of x ys = Some i \<Longrightarrow> i < length ys \<and> ys ! i = x"
  by (induction ys arbitrary: i) (auto split: if_splits)

lemma index_of_None: "index_of x ys = None \<longleftrightarrow> x \<notin> set ys"
  by (induction ys) auto

lemma get_col_in_columns: "get_col c t = Inr vs \<Longrightarrow> c \<in> set (map fst (columns t))"
  using index_of_None [of c "map fst (columns t)"]
  by (auto simp: get_col_def col_index_def split: option.splits)

lemma get_col_length: "get_col c t = Inr vs \<Longrightarrow> length vs = length (rows t)"
  by (auto simp: get_col_def split: option.splits)

lemma get_col_empty:
  assumes "rows v = []" and "col_index c v \<noteq> None"
  shows "get_col c v = Inr []"
  using assms by (auto simp: get_col_def split: option.splits)

lemma wf_column_conforms:
  assumes wf: "wf_table t" and col: "get_col c t = Inr vs"
  shows "\<exists>d. \<forall>v\<in>set vs. conforms d v"
proof -
  obtain i where i: "col_index c t = Some i" and vs: "vs = map (\<lambda>r. cell_at r i) (rows t)"
    using col by (auto simp: get_col_def split: option.splits)
  have len: "i < length (columns t)"
    using index_of_Some [of c "map fst (columns t)" i] i by (simp add: col_index_def)
  have "conforms (snd (columns t ! i)) (cell_at r i)" if "r \<in> set (rows t)" for r
  proof -
    have "list_all2 conforms (map snd (columns t)) r"
      using wf that by (auto simp: wf_table_def list_all_iff)
    then show ?thesis
      using len by (auto simp: cell_at_def list_all2_conv_all_nth)
  qed
  then show ?thesis using vs by auto
qed

subsection \<open>The selection keeps rows of the frame, in order\<close>

lemma select_eq_rows:
  "select_eq c x t = Inr u \<Longrightarrow> \<exists>P. u = t\<lparr>rows := filter P (rows t)\<rparr>"
  by (auto simp: select_eq_def split: option.splits)

lemma guarded_select_rows:
  assumes "(if b then select_eq c x t else Inr t) = Inr u"
  shows "\<exists>P. u = t\<lparr>rows := filter P (rows t)\<rparr>"
proof (cases b)
  case True
  with assms show ?thesis by (simp add: select_eq_rows)
next
  case False
  with assms have "u = t\<lparr>rows := filter (\<lambda>r. True) (rows t)\<rparr>" by simp
  then show ?thesis by blast
qed

lemma applyFilters_rows:
  assumes "applyFilters t d g = Inr v"
  shows "\<exists>P. v = t\<lparr>rows := filter P (rows t)\<rparr>"
proof -
  obtain u where u: "(if d \<noteq> Str ''All'' then select_eq ''Department'' d t else Inr t) = Inr u"
    and v: "(if g \<noteq> Str ''All'' then select_eq ''Gender'' g u else Inr u) = Inr v"
    using assms by (auto simp: applyFilters_def Let_def split: sum.splits)
  obtain P where P: "u = t\<lparr>rows := filter P (rows t)\<rparr>"
    using guarded_select_rows [OF u] by blast
  obtain Q where Q: "v = u\<lparr>rows := filter Q (rows u)\<rparr>"
    using guarded_select_rows [OF v] by blast
  have "v = t\<lparr>rows := filter (\<lambda>r. P r \<and> Q r) (rows t)\<rparr>"
    using P Q by (simp add: conj_commute)
  then show ?thesis by blast
qed

subsection \<open>Distinct values and sorting\<close>

lemma set_unique: "set (unique xs) = set xs"
  by (induction xs rule: unique.induct) auto

lemma distinct_unique: "distinct (unique xs)"
  by (induction xs rule: unique.induct) (auto simp: set_unique)

lemma length_unique: "length (unique xs) = card (set xs)"
  using distinct_card [OF distinct_unique, of xs] by (simp add: set_unique)

text \<open>On strings alone, and on numbers alone, \<open>py_sorted\<close> is the insertion sort of the
  library.\<close>

lemma py_insort_Str: "py_insort (Str s) (map Str ss) = Inr (map Str (insort s ss))"
proof (induction ss)
  case Nil
  show ?case by simp
next
  case (Cons a ss)
  show ?case
  proof (cases "a < s")
    case True
    then have "\<not> s \<le> a" by (simp add: not_le)
    with True Cons show ?thesis by simp
  next
    case False
    then have "s \<le> a" by (simp add: not_less)
    with False show ?thesis by simp
  qed
qed

lemma py_sorted_Str: "py_sorted (map Str ss) = Inr (map Str (sort ss))"
  by (induction ss) (auto simp: py_insort_Str)

lemma py_insort_Num: "py_insort (Num q) (map Num qs) = Inr (map Num (insort q qs))"
proof (induction qs)
  case Nil
  show ?case by simp
next
  case (Cons a qs)
  show ?case
  proof (cases "a < q")
    case True
    then have "\<not> q \<le> a" by (simp add: not_le)
    with True Cons show ?thesis by simp
  next
    case False
    then have "q \<le> a" by (simp add: not_less)
    with False show ?thesis by simp
  qed
qed

lemma py_sorted_Num: "py_sorted (map Num qs) = Inr (map Num (sort qs))"
  by (induction qs) (auto simp: py_insort_Num)

lemma all_Str_map: "\<forall>v\<in>set vs. conforms Object v \<and> v \<noteq> NaN \<Longrightarrow> \<exists>ss. vs = map Str ss"
proof (induction vs)
  case Nil
  then show ?case by simp
next
  case (Cons v vs)
  then obtain ss where "vs = map Str ss" by auto
  moreover from Cons.prems obtain s where "v = Str s" by (cases v) auto
  ultimately have "v # vs = map Str (s # ss)" by simp
  then show ?case by (rule exI)
qed

lemma all_Num_map: "\<forall>v\<in>set vs. conforms Numeric v \<and> v \<noteq> NaN \<Longrightarrow> \<exists>qs. vs = map Num qs"
proof (induction vs)
  case Nil
  then show ?case by simp
next
  case (Cons v vs)
  then obtain qs where "vs = map Num qs" by auto
  moreover from Cons.prems obtain q where "v = Num q" by (cases v) auto
  ultimately have "v # vs = map Num (q # qs)" by simp
  then show ?case by (rule exI)
qed

lemma py_sorted_distinct:
  assumes "\<exists>d. \<forall>v\<in>set vs. conforms d v" and "NaN \<notin> set vs" and "distinct vs"
  shows "\<exists>ds. py_sorted vs = Inr ds \<and> sorted_wrt (\<lambda>a b. py_lt a b = Inr True) ds \<and>
           distinct ds \<and> set ds = set vs \<and> length ds = length vs"
proof -
  from assms obtain d where d: "\<forall>v\<in>set vs. conforms d v \<and> v \<noteq> NaN" by metis
  show ?thesis
  proof (cases d)
    case Numeric
    with d obtain qs where qs: "vs = map Num qs" using all_Num_map by blast
    with \<open>distinct vs\<close> have "distinct qs" by (simp add: distinct_map)
    then have "sorted_wrt (<) (sort qs)" by (simp add: strict_sorted_iff)
    then have "sorted_wrt (\<lambda>a b. py_lt a b = Inr True) (map Num (sort qs))"
      by (simp add: sorted_wrt_map)
    moreover have "distinct (map Num (sort qs))"
      using \<open>distinct qs\<close> by (simp add: distinct_map inj_on_def)
    ultimately show ?thesis using qs by (simp add: py_sorted_Num)
  next
    case Object
    with d obtain ss where ss: "vs = map Str ss" using all_Str_map by blast
    with \<open>distinct vs\<close> have "distinct ss" by (simp add: distinct_map)
    then have "sorted_wrt (<) (sort ss)" by (simp add: strict_sorted_iff)
    then have "sorted_wrt (\<lambda>a b. py_lt a b = Inr True) (map Str (sort ss))"
      by (simp add: sorted_wrt_map)
    moreover have "distinct (map Str (sort ss))"
      using \<open>distinct ss\<close> by (simp add: distinct_map inj_on_def)
    ultimately show ?thesis using ss by (simp add: py_sorted_Str)
  qed
qed

subsection \<open>Counting\<close>

lemma count_list_dropna: "v \<noteq> NaN \<Longrightarrow> count_list (dropna vs) v = count_list vs v"
  by (induction vs) (auto simp: dropna_def)

lemma sum_list_sort_key:
  fixes g :: "'a \<Rightarrow> nat"
  shows "sum_list (map g (sort_key f xs)) = sum_list (map g xs)"
proof -
  have "sum_mset (mset (map g (sort_key f xs))) = sum_mset (mset (map g xs))" by simp
  then show ?thesis by (simp only: sum_mset_sum_list)
qed

lemma sum_count_unique: "(\<Sum>v\<leftarrow>unique xs. count_list xs v) = length xs"
proof -
  have "(\<Sum>v\<leftarrow>unique xs. count_list xs v) = sum (count_list xs) (set (unique xs))"
    by (rule sum_list_distinct_conv_sum_set [OF distinct_unique])
  also have "\<dots> = length xs" by (simp add: set_unique sum_count_set)
  finally show ?thesis .
qed

lemma sum_value_counts: "sum_list (map snd (value_counts vs)) = length (dropna vs)"
proof -
  have "sum_list (map snd (value_counts vs)) = (\<Sum>v\<leftarrow>unique (dropna vs). count_list vs v)"
    by (simp add: value_counts_def sum_list_sort_key comp_def)
  also have "\<dots> = (\<Sum>v\<leftarrow>unique (dropna vs). count_list (dropna vs) v)"
  proof (rule arg_cong [where f = sum_list], rule map_cong)
    fix v assume "v \<in> set (unique (dropna vs))"
    then have "v \<noteq> NaN" by (simp add: set_unique dropna_def)
    then show "count_list vs v = count_list (dropna vs) v" by (simp add: count_list_dropna)
  qed simp
  also have "\<dots> = length (dropna vs)" by (rule sum_count_unique)
  finally show ?thesis .
qed

lemma sum_pie_slices: "sum_list (map snd (pie_slices ls)) = length ls"
  by (simp add: pie_slices_def comp_def sum_count_unique)

subsection \<open>Groups\<close>

lemma sequence_err_Inr: "sequence_err (map (\<lambda>x. Inr (g x)) xs) = Inr (map g xs)"
  by (induction xs) auto

lemma set_group_cells: "set (group_cells ks vs k) \<subseteq> set vs"
  by (auto simp: group_cells_def dest: set_zip_rightD)

lemma mean_no_str:
  assumes "\<not> list_ex is_str vs"
  shows "mean ops vs = Inr (if numbers vs = [] then NaN else Num (fmean ops (numbers vs)))"
  using assms by (simp add: mean_def)

lemma set_group_keys: "set (group_keys ks) = set ks - {NaN}"
  by (auto simp: group_keys_def set_unique dropna_def)

lemma distinct_group_keys: "distinct (group_keys ks)"
  by (simp add: group_keys_def distinct_unique)

lemma length_group_keys: "length (group_keys ks) = nunique ks"
  by (simp add: group_keys_def nunique_def)

subsection \<open>The correlation of no rows\<close>

lemma corr_entry_Nil: "corr_entry ops [] ys = NaN"
  by (simp add: corr_entry_def)

lemma col_entry_empty:
  assumes "rows v = []" and "col_index c v \<noteq> None"
  shows "\<exists>d. col_entry c v = Inr (c, d, [])"
  using assms by (auto simp: col_entry_def split: option.splits)

lemma select_cols_empty:
  assumes "rows v = []" and "\<forall>c\<in>set cs. col_index c v \<noteq> None"
  shows "\<exists>sel. select_cols cs v = Inr sel \<and> (\<forall>c\<in>set sel. snd (snd c) = [])"
  using assms(2)
proof (induction cs)
  case Nil
  then show ?case by (simp add: select_cols_def)
next
  case (Cons c cs)
  then obtain sel where sel: "select_cols cs v = Inr sel" "\<forall>c\<in>set sel. snd (snd c) = []"
    by auto
  obtain d where d: "col_entry c v = Inr (c, d, [])"
    using col_entry_empty [OF assms(1), of c] Cons.prems by auto
  have "select_cols (c # cs) v = Inr ((c, d, []) # sel)"
    using sel(1) d by (simp add: select_cols_def)
  then show ?case using sel(2) by simp
qed

lemma corr_all_nan:
  assumes "\<forall>c\<in>set sel. snd (snd c) = []"
  shows "\<forall>row\<in>set (corr_entries (corr ops sel)). \<forall>e\<in>set row. e = NaN"
proof -
  define mat where "mat = map (\<lambda>c. snd (snd c)) (filter (\<lambda>c. fst (snd c) = Numeric) sel)"
  have len: "length mat = length (filter (\<lambda>c. fst (snd c) = Numeric) sel)"
    by (simp add: mat_def)
  have "mat ! i = []" if "i < length mat" for i
    using that assms nth_mem [of i "filter (\<lambda>c. fst (snd c) = Numeric) sel"]
    by (auto simp: mat_def)
  then have "corr_entry ops (mat ! i) ys = NaN" if "i < length mat" for i ys
    using that by (simp add: corr_entry_Nil)
  then show ?thesis
    by (auto simp: corr_def Let_def mat_def [symmetric] len [symmetric])
qed

subsection \<open>Groups of rows\<close>

lemma group_cells_rows:
  "group_cells (map f rs) (map g rs) k = map g (filter (\<lambda>r. f r = k) rs)"
  by (induction rs) (auto simp: group_cells_def)

lemma sorted_group_keys: "sorted (map cell_key (group_keys ks))"
  by (simp add: group_keys_def)

subsection \<open>The structure of the correlation matrix\<close>
















subsection \<open>The example frames\<close>





lemma example_df_profile_index: "col_index ''LPA_Profile'' example_df = Some 17"
  by (simp add: col_index_def example_df_def)

lemma example_df_attrition_index: "col_index ''Attrition'' example_df = Some 18"
  by (simp add: col_index_def example_df_def)

lemma example_df_dept: "col_index ''Department'' example_df = Some 1"
  by (simp add: col_index_def example_df_def)

lemma example_df_gender: "col_index ''Gender'' example_df = Some 2"
  by (simp add: col_index_def example_df_def)

lemma example_df_departments:
  "get_col ''Department'' example_df = Inr [Str ''Eng'', Str ''Eng'', Str ''Sales'', Str ''Sales'']"
  by (simp add: get_col_def col_index_def example_df_def cell_at_def)

lemma example_df_profiles:
  "get_col ''LPA_Profile'' example_df = Inr [Num 0, Num 1, Num 1, Num 0]"
  by (simp add: get_col_def col_index_def example_df_def cell_at_def)

lemma example_df_attrition:
  "get_col ''Attrition'' example_df = Inr [Num 1, Num 0, Num 0, Num 1]"
  by (simp add: get_col_def col_index_def example_df_def cell_at_def)

lemma example_df_eng:
  "applyFilters example_df (Str ''Eng'') (Str ''All'') =
     Inr (example_df\<lparr>rows := take 2 (rows example_df)\<rparr>)"
  by (simp add: applyFilters_def select_eq_def col_index_def example_df_def cell_at_def)

lemma example_df_eng_m:
  "applyFilters example_df (Str ''Eng'') (Str ''M'') = Inr (example_df\<lparr>rows := []\<rparr>)"
  by (simp add: applyFilters_def select_eq_def col_index_def example_df_def cell_at_def)

section \<open>The filter engine\<close>

text \<open>
  C1. When the frame has the columns Department and Gender, \<open>applyFilters\<close> returns the
  frame with exactly the rows that pass both tests, in one pass: a selector set to
  \<^verbatim>\<open>"All"\<close> tests nothing, any other value keeps the rows whose cell in that column
  equals it, and a row is kept if and only if it passes the Department test and the Gender
  test. Equality is that of the script, \<open>py_eq\<close>.
\<close>

theorem applyFilters_selects:
  assumes "col_index ''Department'' t = Some i" and "col_index ''Gender'' t = Some j"
  shows "applyFilters t d g =
           Inr (t\<lparr>rows := filter (\<lambda>r. (d = Str ''All'' \<or> py_eq (cell_at r i) d) \<and>
                                      (g = Str ''All'' \<or> py_eq (cell_at r j) g))
                                (rows t)\<rparr>)"
  using assms by (simp add: applyFilters_def select_eq_def col_index_def conj_commute)

text \<open>On the example frame, Sales and F select the third employee alone.\<close>

theorem applyFilters_selects_witness:
  "col_index ''Department'' example_df = Some 1 \<and> col_index ''Gender'' example_df = Some 2 \<and>
   applyFilters example_df (Str ''Sales'') (Str ''F'') =
     Inr (example_df\<lparr>rows := [rows example_df ! 2]\<rparr>)"
proof -
  have "filter (\<lambda>r. (Str ''Sales'' = Str ''All'' \<or> py_eq (cell_at r 1) (Str ''Sales'')) \<and>
                      (Str ''F'' = Str ''All'' \<or> py_eq (cell_at r 2) (Str ''F'')))
          (rows example_df) = [rows example_df ! 2]"
    by (simp add: example_df_def cell_at_def)
  then show ?thesis
    using example_df_dept example_df_gender
      applyFilters_selects [OF example_df_dept example_df_gender, of "Str ''Sales''" "Str ''F''"]
    by simp
qed

text \<open>
  C7. With both selectors on \<^verbatim>\<open>"All"\<close> the view is the frame itself: the same columns
  and the same rows. No column is read, so this holds for every frame.
\<close>

theorem applyFilters_unconstrained: "applyFilters t (Str ''All'') (Str ''All'') = Inr t"
  by (simp add: applyFilters_def)

theorem applyFilters_unconstrained_witness:
  "applyFilters example_df (Str ''All'') (Str ''All'') = Inr example_df \<and>
   length (rows example_df) = 4"
  using applyFilters_unconstrained [of example_df] by (simp add: example_df_def)

text \<open>
  C9. Every row of the view is a row of the frame, and no row occurs in the view more often
  than in the frame. A change of a selector stores the view computed from the frame,
  whatever view the session held before, and leaves the frame as it is.
\<close>

theorem filtered_view_subset:
  assumes "applyFilters t d g = Inr v"
  shows "set (rows v) \<subseteq> set (rows t) \<and> mset (rows v) \<subseteq># mset (rows t) \<and>
         on_filter_change \<lparr>s_df = t, s_df_filtered = old\<rparr> d g =
           Inr \<lparr>s_df = t, s_df_filtered = v\<rparr>"
proof -
  obtain P where "v = t\<lparr>rows := filter P (rows t)\<rparr>"
    using applyFilters_rows [OF assms] by blast
  then have "set (rows v) \<subseteq> set (rows t)" and "mset (rows v) \<subseteq># mset (rows t)"
    by auto
  moreover have "on_filter_change \<lparr>s_df = t, s_df_filtered = old\<rparr> d g =
      Inr \<lparr>s_df = t, s_df_filtered = v\<rparr>"
    using assms by (simp add: on_filter_change_def)
  ultimately show ?thesis by simp
qed

theorem filtered_view_subset_witness:
  "applyFilters example_df (Str ''Eng'') (Str ''All'') =
     Inr (example_df\<lparr>rows := take 2 (rows example_df)\<rparr>) \<and>
   set (take 2 (rows example_df)) \<subseteq> set (rows example_df) \<and>
   on_filter_change \<lparr>s_df = example_df, s_df_filtered = example_no_attrition_df\<rparr>
       (Str ''Eng'') (Str ''All'') =
     Inr \<lparr>s_df = example_df, s_df_filtered = example_df\<lparr>rows := take 2 (rows example_df)\<rparr>\<rparr>"
  using example_df_eng
    filtered_view_subset [OF example_df_eng, of example_no_attrition_df]
  by simp

text \<open>
  C10. A change of a selector leaves the frame of the session untouched and stores the
  output of \<open>applyFilters\<close> as the view: the view has the columns of the frame, and its rows
  are rows of the frame in the order of the frame, each with its cells as they were.
\<close>

theorem applyFilters_preserves_order:
  assumes "on_filter_change s d g = Inr s'"
  shows "s_df s' = s_df s \<and> applyFilters (s_df s) d g = Inr (s_df_filtered s') \<and>
         columns (s_df_filtered s') = columns (s_df s) \<and>
         subseq (rows (s_df_filtered s')) (rows (s_df s))"
proof -
  obtain v where v: "applyFilters (s_df s) d g = Inr v" and s': "s' = s\<lparr>s_df_filtered := v\<rparr>"
    using assms by (auto simp: on_filter_change_def split: sum.splits)
  obtain P where "v = (s_df s)\<lparr>rows := filter P (rows (s_df s))\<rparr>"
    using applyFilters_rows [OF v] by blast
  then have "columns v = columns (s_df s)" and "subseq (rows v) (rows (s_df s))"
    by simp_all
  then show ?thesis using v s' by simp
qed

theorem applyFilters_preserves_order_witness:
  "on_filter_change \<lparr>s_df = example_df, s_df_filtered = example_df\<rparr> (Str ''Eng'') (Str ''All'') =
     Inr \<lparr>s_df = example_df, s_df_filtered = example_df\<lparr>rows := take 2 (rows example_df)\<rparr>\<rparr> \<and>
   subseq (take 2 (rows example_df)) (rows example_df)"
proof -
  have a: "on_filter_change \<lparr>s_df = example_df, s_df_filtered = example_df\<rparr>
             (Str ''Eng'') (Str ''All'') =
           Inr \<lparr>s_df = example_df, s_df_filtered = example_df\<lparr>rows := take 2 (rows example_df)\<rparr>\<rparr>"
    by (simp add: on_filter_change_def example_df_eng)
  show ?thesis using a applyFilters_preserves_order [OF a] by simp
qed

text \<open>
  C5. For a well-formed frame and a column of it without missing values, \<open>distinctValues\<close>
  returns the values of the column in strictly ascending order, hence without duplicates,
  one for each distinct value of the column; the options of the selector are \<^verbatim>\<open>"All"\<close>
  followed by that list.
\<close>

theorem distinctValues_sorted_unique:
  assumes wf: "wf_table t" and col: "get_col c t = Inr vs" and present: "NaN \<notin> set vs"
  shows "\<exists>ds. distinctValues t c = Inr ds \<and>
           sorted_wrt (\<lambda>a b. py_lt a b = Inr True) ds \<and> distinct ds \<and>
           set ds = set vs \<and> length ds = card (set vs) \<and>
           selector_options t c = Inr (Str ''All'' # ds)"
proof -
  have "\<exists>d. \<forall>v\<in>set (unique vs). conforms d v"
    using wf_column_conforms [OF wf col] by (simp add: set_unique)
  moreover have "NaN \<notin> set (unique vs)" using present by (simp add: set_unique)
  ultimately obtain ds where ds: "py_sorted (unique vs) = Inr ds"
    "sorted_wrt (\<lambda>a b. py_lt a b = Inr True) ds" "distinct ds"
    "set ds = set (unique vs)" "length ds = length (unique vs)"
    using py_sorted_distinct [OF _ _ distinct_unique, of vs] by blast
  have "distinctValues t c = Inr ds" using col ds(1) by (simp add: distinctValues_def)
  then show ?thesis
    using ds by (simp add: selector_options_def set_unique length_unique)
qed

theorem distinctValues_sorted_unique_witness:
  "wf_table example_df \<and>
   get_col ''Department'' example_df =
     Inr [Str ''Eng'', Str ''Eng'', Str ''Sales'', Str ''Sales''] \<and>
   NaN \<notin> set [Str ''Eng'', Str ''Eng'', Str ''Sales'', Str ''Sales''] \<and>
   distinctValues example_df ''Department'' = Inr [Str ''Eng'', Str ''Sales''] \<and>
   selector_options example_df ''Department'' = Inr [Str ''All'', Str ''Eng'', Str ''Sales'']"
proof -
  have wf: "wf_table example_df" by (simp add: wf_table_def example_df_def)
  have pr: "NaN \<notin> set [Str ''Eng'', Str ''Eng'', Str ''Sales'', Str ''Sales'']" by simp
  have dv: "distinctValues example_df ''Department'' = Inr [Str ''Eng'', Str ''Sales'']"
    by (simp add: distinctValues_def example_df_departments)
  show ?thesis
    using wf pr dv example_df_departments
      distinctValues_sorted_unique [OF wf example_df_departments pr]
    by (simp add: selector_options_def)
qed

section \<open>Metrics and aggregations\<close>

text \<open>
  C6, as it stands, fails: \<open>value_counts\<close> leaves missing values out. In the example frame
  with one profile missing the counts per profile are 2 and 1, and the view has 4 rows.
\<close>

theorem grouped_counts_counterexample:
  "applyFilters example_missing_profile_df (Str ''All'') (Str ''All'') =
     Inr example_missing_profile_df \<and>
   fig1_data example_missing_profile_df = Inr [(Num 1, 2), (Num 0, 1)] \<and>
   sum_list (map snd [(Num 1, 2::nat), (Num 0, 1)]) \<noteq> length (rows example_missing_profile_df)"
  by (simp add: applyFilters_def fig1_data_def bind_err_def get_col_def col_index_def
        example_missing_profile_df_def example_df_def cell_at_def value_counts_def dropna_def)

text \<open>
  C6, amended. The counts per profile sum to the number of rows of the view whose profile
  is not missing, which is the row count of the view when no profile is missing. The counts
  per department sum to the row count of the view, whatever the view.
\<close>

theorem grouped_counts_sum:
  assumes "get_col ''LPA_Profile'' v = Inr ps" and "get_col ''Department'' v = Inr ds"
  shows "\<exists>pc dc. fig1_data v = Inr pc \<and> fig2_data v = Inr dc \<and>
           sum_list (map snd pc) = length (dropna ps) \<and>
           (NaN \<notin> set ps \<longrightarrow> sum_list (map snd pc) = length (rows v)) \<and>
           sum_list (map snd dc) = length (rows v)"
proof -
  have lp: "length ps = length (rows v)" and ld: "length ds = length (rows v)"
    using assms by (simp_all add: get_col_length)
  have "NaN \<notin> set ps \<Longrightarrow> dropna ps = ps" by (auto simp: dropna_def filter_id_conv)
  then show ?thesis
    using assms lp ld
    by (auto simp: fig1_data_def fig2_data_def px_col_def bind_err_def sum_value_counts
          sum_pie_slices)
qed

text \<open>On the example frame both sums are 4; with one profile missing the profiles sum to
  3 and the departments still to 4.\<close>

theorem grouped_counts_sum_witness:
  "get_col ''LPA_Profile'' example_df = Inr [Num 0, Num 1, Num 1, Num 0] \<and>
   get_col ''Department'' example_df =
     Inr [Str ''Eng'', Str ''Eng'', Str ''Sales'', Str ''Sales''] \<and>
   NaN \<notin> set [Num 0, Num 1, Num 1, Num 0] \<and>
   fig1_data example_df = Inr [(Num 0, 2), (Num 1, 2)] \<and>
   fig2_data example_df = Inr [(Str ''Eng'', 2), (Str ''Sales'', 2)] \<and>
   length (rows example_df) = 4 \<and>
   get_col ''LPA_Profile'' example_missing_profile_df = Inr [Num 0, Num 1, Num 1, NaN] \<and>
   fig1_data example_missing_profile_df = Inr [(Num 1, 2), (Num 0, 1)] \<and>
   fig2_data example_missing_profile_df = Inr [(Str ''Eng'', 2), (Str ''Sales'', 2)] \<and>
   length (rows example_missing_profile_df) = 4"
proof -
  have f1: "fig1_data example_df = Inr [(Num 0, 2), (Num 1, 2)]"
    by (simp add: fig1_data_def bind_err_def example_df_profiles value_counts_def dropna_def)
  have f2: "fig2_data example_df = Inr [(Str ''Eng'', 2), (Str ''Sales'', 2)]"
    by (simp add: fig2_data_def px_col_def bind_err_def example_df_departments pie_slices_def)
  have n: "length (rows example_df) = 4" by (simp add: example_df_def)
  have p': "get_col ''LPA_Profile'' example_missing_profile_df = Inr [Num 0, Num 1, Num 1, NaN]"
    by (simp add: get_col_def col_index_def example_missing_profile_df_def example_df_def
          cell_at_def)
  have d': "get_col ''Department'' example_missing_profile_df =
      Inr [Str ''Eng'', Str ''Eng'', Str ''Sales'', Str ''Sales'']"
    by (simp add: get_col_def col_index_def example_missing_profile_df_def example_df_def
          cell_at_def)
  have f1': "fig1_data example_missing_profile_df = Inr [(Num 1, 2), (Num 0, 1)]"
    by (simp add: fig1_data_def bind_err_def p' value_counts_def dropna_def)
  have f2': "fig2_data example_missing_profile_df = Inr [(Str ''Eng'', 2), (Str ''Sales'', 2)]"
    by (simp add: fig2_data_def px_col_def bind_err_def d' pie_slices_def)
  have n': "length (rows example_missing_profile_df) = 4"
    by (simp add: example_missing_profile_df_def example_df_def)
  show ?thesis
    using f1 f2 n p' f1' f2' n' example_df_profiles example_df_departments
      grouped_counts_sum [OF example_df_profiles example_df_departments]
      grouped_counts_sum [OF p' d']
    by simp
qed

text \<open>
  C4. When the view has no Attrition column, chart 7 is replaced by the warning and nothing
  is raised. When it has one whose cells are numbers or missing, and has LPA_Profile, the
  chart has one pair per distinct profile that is not missing, profiles ascending. For a
  profile, the rows of the view with that profile are taken, then their Attrition cells
  that are not missing: the second component of the pair is the mean of these, as numpy
  computes it, times 100, and \<^verbatim>\<open>nan\<close> when there is none.
\<close>

theorem attrition_by_profile:
  "(''Attrition'' \<notin> set (map fst (columns v)) \<longrightarrow>
      attr_data ops v = Inr (Warning ''Attrition column not found in dataset.'')) \<and>
   (col_index ''LPA_Profile'' v = Some i \<and> col_index ''Attrition'' v = Some j \<and>
    \<not> list_ex (\<lambda>r. is_str (cell_at r j)) (rows v) \<longrightarrow>
      (\<exists>pairs. attr_data ops v = Inr (Chart pairs) \<and>
         distinct (map fst pairs) \<and>
         set (map fst pairs) = set (map (\<lambda>r. cell_at r i) (rows v)) - {NaN} \<and>
         length pairs = nunique (map (\<lambda>r. cell_at r i) (rows v)) \<and>
         sorted (map cell_key (map fst pairs)) \<and>
         (\<forall>p\<in>set pairs.
            snd p =
              (let attrition = numbers (map (\<lambda>r. cell_at r j)
                                          (filter (\<lambda>r. cell_at r i = fst p) (rows v)))
               in if attrition = [] then NaN
                  else Num (fmul ops (fmean ops attrition) 100)))))"
proof (intro conjI impI)
  assume "''Attrition'' \<notin> set (map fst (columns v))"
  then show "attr_data ops v = Inr (Warning ''Attrition column not found in dataset.'')"
    by (simp add: attr_data_def)
next
  assume h: "col_index ''LPA_Profile'' v = Some i \<and> col_index ''Attrition'' v = Some j \<and>
    \<not> list_ex (\<lambda>r. is_str (cell_at r j)) (rows v)"
  define ks where "ks = map (\<lambda>r. cell_at r i) (rows v)"
  define vs where "vs = map (\<lambda>r. cell_at r j) (rows v)"
  define att where "att k = numbers (map (\<lambda>r. cell_at r j)
                                    (filter (\<lambda>r. cell_at r i = k) (rows v)))" for k
  define pct where "pct k = (if att k = [] then NaN else Num (fmul ops (fmean ops (att k)) 100))"
    for k
  have ks: "get_col ''LPA_Profile'' v = Inr ks" and vs: "get_col ''Attrition'' v = Inr vs"
    using h by (simp_all add: get_col_def ks_def vs_def)
  have nostr: "\<not> list_ex is_str vs"
    using h by (simp add: vs_def list_ex_iff)
  have grp: "group_cells ks vs k = map (\<lambda>r. cell_at r j) (filter (\<lambda>r. cell_at r i = k) (rows v))"
    for k
    by (simp add: ks_def vs_def group_cells_rows)
  have mean_k: "mean ops (group_cells ks vs k) =
      Inr (if att k = [] then NaN else Num (fmean ops (att k)))" for k
  proof -
    have "\<not> list_ex is_str (group_cells ks vs k)"
      using nostr set_group_cells [of ks vs k] by (auto simp: list_ex_iff)
    then show ?thesis by (simp add: mean_no_str grp att_def)
  qed
  have times_k: "times_100 ops (if att k = [] then NaN else Num (fmean ops (att k))) =
      Inr (pct k)" for k
    by (simp add: pct_def)
  have gm: "groupby_mean ops ''LPA_Profile'' ''Attrition'' v =
      Inr (map (\<lambda>k. (k, if att k = [] then NaN else Num (fmean ops (att k)))) (group_keys ks))"
    by (simp add: groupby_mean_def bind_err_def ks vs mean_k sequence_err_Inr)
  have present: "''Attrition'' \<in> set (map fst (columns v))"
    using vs get_col_in_columns by blast
  have ad: "attr_data ops v = Inr (Chart (map (\<lambda>k. (k, pct k)) (group_keys ks)))"
    using present
    by (simp add: attr_data_def gm bind_err_def comp_def times_k sequence_err_Inr)
  have fsts: "map fst (map (\<lambda>k. (k, pct k)) (group_keys ks)) = group_keys ks"
    by (simp add: comp_def)
  show "\<exists>pairs. attr_data ops v = Inr (Chart pairs) \<and>
         distinct (map fst pairs) \<and>
         set (map fst pairs) = set (map (\<lambda>r. cell_at r i) (rows v)) - {NaN} \<and>
         length pairs = nunique (map (\<lambda>r. cell_at r i) (rows v)) \<and>
         sorted (map cell_key (map fst pairs)) \<and>
         (\<forall>p\<in>set pairs.
            snd p =
              (let attrition = numbers (map (\<lambda>r. cell_at r j)
                                          (filter (\<lambda>r. cell_at r i = fst p) (rows v)))
               in if attrition = [] then NaN
                  else Num (fmul ops (fmean ops attrition) 100)))"
  proof (intro exI conjI)
    show "attr_data ops v = Inr (Chart (map (\<lambda>k. (k, pct k)) (group_keys ks)))"
      by (rule ad)
    show "distinct (map fst (map (\<lambda>k. (k, pct k)) (group_keys ks)))"
      by (simp only: fsts distinct_group_keys)
    show "set (map fst (map (\<lambda>k. (k, pct k)) (group_keys ks))) =
        set (map (\<lambda>r. cell_at r i) (rows v)) - {NaN}"
      by (simp add: comp_def set_group_keys ks_def)
    show "length (map (\<lambda>k. (k, pct k)) (group_keys ks)) =
        nunique (map (\<lambda>r. cell_at r i) (rows v))"
      by (simp add: length_group_keys ks_def)
    show "sorted (map cell_key (map fst (map (\<lambda>k. (k, pct k)) (group_keys ks))))"
      by (simp only: fsts sorted_group_keys)
    show "\<forall>p\<in>set (map (\<lambda>k. (k, pct k)) (group_keys ks)).
            snd p =
              (let attrition = numbers (map (\<lambda>r. cell_at r j)
                                          (filter (\<lambda>r. cell_at r i = fst p) (rows v)))
               in if attrition = [] then NaN
                  else Num (fmul ops (fmean ops attrition) 100))"
      by (auto simp: pct_def att_def Let_def)
  qed
qed

text \<open>In the example frame everybody of profile 0 has left and nobody of profile 1, half
  of the employees overall; without the column the chart gives way to the warning.\<close>

theorem attrition_by_profile_witness:
  "col_index ''LPA_Profile'' example_df = Some 17 \<and>
   col_index ''Attrition'' example_df = Some 18 \<and>
   \<not> list_ex (\<lambda>r. is_str (cell_at r 18)) (rows example_df) \<and>
   attr_data example_ops example_df = Inr (Chart [(Num 0, Num 100), (Num 1, Num 0)]) \<and>
   ''Attrition'' \<notin> set (map fst (columns example_no_attrition_df)) \<and>
   attr_data example_ops example_no_attrition_df =
     Inr (Warning ''Attrition column not found in dataset.'')"
proof -
  have n: "\<not> list_ex (\<lambda>r. is_str (cell_at r 18)) (rows example_df)"
    by (simp add: example_df_def cell_at_def)
  have a: "''Attrition'' \<notin> set (map fst (columns example_no_attrition_df))"
    by (simp add: example_no_attrition_df_def example_df_def)
  have "''Attrition'' \<in> set (map fst (columns example_df))"
    by (simp add: example_df_def)
  then have c: "attr_data example_ops example_df = Inr (Chart [(Num 0, Num 100), (Num 1, Num 0)])"
    by (simp add: attr_data_def groupby_mean_def bind_err_def example_df_profiles
          example_df_attrition group_keys_def dropna_def group_cells_def mean_def
          example_ops_def)
  show ?thesis
    using n a c example_df_profile_index example_df_attrition_index
      attrition_by_profile [of example_no_attrition_df example_ops 0 0]
      attrition_by_profile [of example_df example_ops 17 18]
    by simp
qed

text \<open>
  C3. On a view without rows that has the columns the script reads, nothing is raised: the
  row count is 0, both means are rendered as \<^verbatim>\<open>nan\<close>, no profile is counted, the value
  counts, the pie, the histogram series, the boxes and the attrition chart are empty, and
  every entry of the correlation matrix is \<^verbatim>\<open>nan\<close>.
\<close>

theorem empty_view_degrades:
  assumes empty: "rows v = []" and cols: "\<forall>c\<in>set required_cols. col_index c v \<noteq> None"
  shows "kpi_cards ops v = Inr \<lparr>total_employees = 0, avg_satisfaction = ''nan'',
                                 avg_performance = ''nan'', profiles = 0\<rparr> \<and>
         fig1_data v = Inr [] \<and> fig2_data v = Inr [] \<and>
         fig4_data v = Inr \<lparr>nbins = 20, series = []\<rparr> \<and> fig5_data v = Inr [] \<and>
         (\<exists>m. fig6_data ops v = Inr m \<and>
              (\<forall>row\<in>set (corr_entries m). \<forall>e\<in>set row. e = NaN)) \<and>
         attr_data ops v =
           Inr (if ''Attrition'' \<in> set (map fst (columns v)) then Chart []
                else Warning ''Attrition column not found in dataset.'')"
proof -
  have col: "get_col c v = Inr []" if "c \<in> set required_cols" for c
    using get_col_empty [OF empty] cols that by blast
  have sat: "get_col ''Satisfaction'' v = Inr []" by (rule col) (simp add: required_cols_def)
  have perf: "get_col ''PerformanceScore'' v = Inr []"
    by (rule col) (simp add: required_cols_def)
  have prof: "get_col ''LPA_Profile'' v = Inr []" by (rule col) (simp add: required_cols_def)
  have dept: "get_col ''Department'' v = Inr []" by (rule col) (simp add: required_cols_def)
  have stress: "get_col ''Stress'' v = Inr []" by (rule col) (simp add: required_cols_def)
  have gender: "get_col ''Gender'' v = Inr []" by (rule col) (simp add: required_cols_def)
  have wlb: "get_col ''WorkLifeBalance'' v = Inr []"
    by (rule col) (simp add: required_cols_def)
  have kpi: "kpi_cards ops v = Inr \<lparr>total_employees = 0, avg_satisfaction = ''nan'',
                                 avg_performance = ''nan'', profiles = 0\<rparr>"
    by (simp add: kpi_cards_def bind_err_def sat perf prof mean_def nunique_def dropna_def empty)
  have f1: "fig1_data v = Inr []"
    by (simp add: fig1_data_def bind_err_def prof value_counts_def dropna_def)
  have f2: "fig2_data v = Inr []"
    by (simp add: fig2_data_def px_col_def bind_err_def dept pie_slices_def)
  have f4: "fig4_data v = Inr \<lparr>nbins = 20, series = []\<rparr>"
    by (simp add: fig4_data_def series_by_def px_col_def bind_err_def stress gender dropna_def)
  have f5: "fig5_data v = Inr []"
    by (simp add: fig5_data_def series_by_def px_col_def bind_err_def dept wlb dropna_def)
  have "\<forall>c\<in>set num_cols. col_index c v \<noteq> None"
    using cols by (simp add: required_cols_def)
  then obtain sel where sel: "select_cols num_cols v = Inr sel"
    "\<forall>c\<in>set sel. snd (snd c) = []"
    using select_cols_empty [OF empty] by blast
  have f6: "\<exists>m. fig6_data ops v = Inr m \<and>
      (\<forall>row\<in>set (corr_entries m). \<forall>e\<in>set row. e = NaN)"
    using corr_all_nan [OF sel(2)] by (simp add: fig6_data_def bind_err_def sel(1))
  have f7: "attr_data ops v =
      Inr (if ''Attrition'' \<in> set (map fst (columns v)) then Chart []
           else Warning ''Attrition column not found in dataset.'')"
  proof (cases "''Attrition'' \<in> set (map fst (columns v))")
    case True
    then have "col_index ''Attrition'' v \<noteq> None"
      by (simp add: col_index_def index_of_None)
    then have "get_col ''Attrition'' v = Inr []" by (rule get_col_empty [OF empty])
    then show ?thesis
      using True
      by (simp add: attr_data_def groupby_mean_def bind_err_def prof group_keys_def dropna_def)
  next
    case False
    then show ?thesis by (simp add: attr_data_def)
  qed
  show ?thesis using kpi f1 f2 f4 f5 f6 f7 by blast
qed

text \<open>In the example frame nobody in Eng is M: that selection gives the empty view.\<close>

theorem empty_view_degrades_witness:
  "applyFilters example_df (Str ''Eng'') (Str ''M'') = Inr (example_df\<lparr>rows := []\<rparr>) \<and>
   rows (example_df\<lparr>rows := []\<rparr>) = [] \<and>
   list_all (\<lambda>c. col_index c (example_df\<lparr>rows := []\<rparr>) \<noteq> None) required_cols \<and>
   kpi_cards example_ops (example_df\<lparr>rows := []\<rparr>) =
     Inr \<lparr>total_employees = 0, avg_satisfaction = ''nan'', avg_performance = ''nan'',
          profiles = 0\<rparr> \<and>
   fig1_data (example_df\<lparr>rows := []\<rparr>) = Inr [] \<and>
   fig4_data (example_df\<lparr>rows := []\<rparr>) = Inr \<lparr>nbins = 20, series = []\<rparr> \<and>
   attr_data example_ops (example_df\<lparr>rows := []\<rparr>) = Inr (Chart [])"
proof -
  have e: "rows (example_df\<lparr>rows := []\<rparr>) = []" by simp
  have c: "\<forall>c\<in>set required_cols. col_index c (example_df\<lparr>rows := []\<rparr>) \<noteq> None"
    by (simp add: required_cols_def num_cols_def col_index_def example_df_def)
  have at: "''Attrition'' \<in> set (map fst (columns (example_df\<lparr>rows := []\<rparr>)))"
    by (simp add: example_df_def)
  show ?thesis
    using example_df_eng_m e c at empty_view_degrades [OF e c, of example_ops]
    by (simp add: list_all_iff)
qed




end
